theory Spec2Isabelle
  imports Main
begin

section \<open>Text: lower-casing and the substring test\<close>

text \<open>
  Message contents and instructions are Python \<^verbatim>\<open>str\<close> values. They are modelled as
  strings of 8-bit characters read as the code points 0..255 (ASCII and Latin-1). On that
  range \<^verbatim>\<open>str.lower\<close> works character by character: it adds 32 to the capital letters
  A..Z and to the capital letters 192..222 other than the multiplication sign 215, and
  leaves every other character alone.
\<close>

definition lower_char :: "char \<Rightarrow> char" where
  "lower_char c =
     (let n = (of_char c :: nat) in
      if (65 \<le> n \<and> n \<le> 90) \<or> (192 \<le> n \<and> n \<le> 222 \<and> n \<noteq> 215)
      then char_of (n + 32) else c)"

definition lower :: "string \<Rightarrow> string" where
  "lower s = map lower_char s"

text \<open>\<^verbatim>\<open>s.startswith(sub)\<close> and the operator \<^verbatim>\<open>sub in s\<close> on strings.\<close>

fun startswith :: "string \<Rightarrow> string \<Rightarrow> bool" where
  "startswith s [] = True"
| "startswith [] (c # sub) = False"
| "startswith (d # s) (c # sub) = (d = c \<and> startswith s sub)"

fun str_in :: "string \<Rightarrow> string \<Rightarrow> bool" where
  "str_in sub [] = (sub = [])"
| "str_in sub (d # s) = (startswith (d # s) sub \<or> str_in sub s)"

section \<open>Exceptions, the outside world and its trace\<close>

text \<open>
  Every exception of the program is a value. \<open>SlackApiError\<close> is the one class that
  \<^verbatim>\<open>send_slack_message\<close> catches; \<open>TransportError\<close> stands for any other exception of
  the chat client (a failed connection, a malformed request); \<open>AgentError\<close> for an exception
  of the language-model agent; \<open>IndexError\<close> for \<^verbatim>\<open>[-1]\<close> on an empty list;
  \<open>InvalidUpdateError\<close> and \<open>GraphRecursionError\<close> are raised by the graph engine.
\<close>

datatype exn =
    SlackApiError
  | TransportError
  | AgentError
  | IndexError
  | InvalidUpdateError
  | GraphRecursionError

record time =
  hour :: nat
  minute :: nat
  second :: nat
  microsecond :: nat

record date =
  year :: nat
  month :: nat
  day :: nat

record datetime =
  date_part :: date
  time_part :: time

text \<open>\<^verbatim>\<open>datetime.time(21, 0)\<close> and the comparison \<^verbatim>\<open><\<close> of two naive times, which
  compares hour, minute, second and microsecond in that order.\<close>

definition mk_time :: "nat \<Rightarrow> nat \<Rightarrow> time" where
  "mk_time h m = \<lparr>hour = h, minute = m, second = 0, microsecond = 0\<rparr>"

definition time_lt :: "time \<Rightarrow> time \<Rightarrow> bool" where
  "time_lt a b =
     (hour a < hour b \<or> (hour a = hour b \<and>
       (minute a < minute b \<or> (minute a = minute b \<and>
         (second a < second b \<or> (second a = second b \<and> microsecond a < microsecond b))))))"

record message =
  content :: string

text \<open>One streamed event of the agent: the value of \<^verbatim>\<open>event["messages"]\<close>.\<close>

record event =
  messages :: "message list"

text \<open>
  The calls that leave the program, in the order they are made: a reading of the clock
  (\<^verbatim>\<open>datetime.datetime.now()\<close>), an instruction streamed to the agent
  (\<^verbatim>\<open>agent_executor.stream\<close>) and a post to the chat service
  (\<^verbatim>\<open>client.chat_postMessage\<close>, with its channel and text).
\<close>

datatype call =
    Now
  | AgentStream string
  | ChatPostMessage string string

text \<open>
  The outside world answers each call, and its answer may depend on everything that
  happened before: each oracle receives the trace of the earlier calls.
\<close>

record env =
  now :: "call list \<Rightarrow> datetime"
  agent_stream :: "call list \<Rightarrow> string \<Rightarrow> exn + event list"
  chat_postMessage :: "call list \<Rightarrow> string \<Rightarrow> string \<Rightarrow> exn + unit"

section \<open>The two collaborators\<close>

datatype EmailAgent = EmailAgent

record SlackAgent =
  token :: string
  channel_id :: string

definition SlackAgent_init :: "string \<Rightarrow> string \<Rightarrow> SlackAgent" where
  "SlackAgent_init slack_token channel = \<lparr>token = slack_token, channel_id = channel\<rparr>"

text \<open>\<^verbatim>\<open>event["messages"][-1]\<close>: the last message of an event, IndexError on an empty list.\<close>

definition last_message :: "event \<Rightarrow> exn + message" where
  "last_message ev = (case messages ev of [] \<Rightarrow> Inl IndexError | _ \<Rightarrow> Inr (last (messages ev)))"

text \<open>The loop of \<^verbatim>\<open>process_query\<close> over the events, appending to \<^verbatim>\<open>extracted_data\<close>.\<close>

fun extract_loop :: "event list \<Rightarrow> message list \<Rightarrow> exn + message list" where
  "extract_loop [] extracted_data = Inr extracted_data"
| "extract_loop (ev # events) extracted_data =
     (case last_message ev of
        Inl e \<Rightarrow> Inl e
      | Inr m \<Rightarrow> extract_loop events (extracted_data @ [m]))"

definition process_query ::
  "env \<Rightarrow> string \<Rightarrow> call list \<Rightarrow> (exn + message list) \<times> call list" where
  "process_query w query tr =
     (case agent_stream w tr query of
        Inl e \<Rightarrow> (Inl e, tr @ [AgentStream query])
      | Inr events \<Rightarrow> (extract_loop events [], tr @ [AgentStream query]))"

text \<open>\<^verbatim>\<open>try: chat_postMessage(...); return True  except SlackApiError: return False\<close>.
  Any other exception is not caught.\<close>

definition send_slack_message ::
  "env \<Rightarrow> SlackAgent \<Rightarrow> string \<Rightarrow> call list \<Rightarrow> (exn + bool) \<times> call list" where
  "send_slack_message w self message tr =
     (case chat_postMessage w tr (channel_id self) message of
        Inr response \<Rightarrow> (Inr True, tr @ [ChatPostMessage (channel_id self) message])
      | Inl SlackApiError \<Rightarrow> (Inr False, tr @ [ChatPostMessage (channel_id self) message])
      | Inl e \<Rightarrow> (Inl e, tr @ [ChatPostMessage (channel_id self) message]))"

section \<open>The workflow state and its channels\<close>

text \<open>
  \<^verbatim>\<open>WorkUpdateState\<close>: the seven keys of the typed dictionary. The two agent entries hold
  references to the collaborators; no stage reads them.
\<close>

record WorkUpdateState =
  user_email :: string
  update_received :: bool
  current_time :: datetime
  reminder_sent :: bool
  slack_message_sent :: bool
  email_agent :: "EmailAgent option"
  slack_agent :: "SlackAgent option"

text \<open>
  What a node returns: a dictionary holding some of the keys (\<open>None\<close>: the key is absent).
  \<open>dict_of\<close> is the dictionary \<^verbatim>\<open>{**state}\<close>, which holds all seven.
\<close>

record StateUpdate =
  upd_user_email :: "string option"
  upd_update_received :: "bool option"
  upd_current_time :: "datetime option"
  upd_reminder_sent :: "bool option"
  upd_slack_message_sent :: "bool option"
  upd_email_agent :: "EmailAgent option option"
  upd_slack_agent :: "SlackAgent option option"

definition dict_of :: "WorkUpdateState \<Rightarrow> StateUpdate" where
  "dict_of state =
     \<lparr>upd_user_email = Some (user_email state),
      upd_update_received = Some (update_received state),
      upd_current_time = Some (current_time state),
      upd_reminder_sent = Some (reminder_sent state),
      upd_slack_message_sent = Some (slack_message_sent state),
      upd_email_agent = Some (email_agent state),
      upd_slack_agent = Some (slack_agent state)\<rparr>"

text \<open>
  The graph engine keeps one channel per key. A key annotated with \<^verbatim>\<open>operator.or_\<close> folds
  every value written in a step into the stored one with \<open>\<or>\<close>; its channel starts at
  \<^verbatim>\<open>bool()\<close>, which is false. Every other key keeps the last value written and accepts one
  write per step: two writes in one step raise InvalidUpdateError.
\<close>

definition writes_to :: "(StateUpdate \<Rightarrow> 'a option) \<Rightarrow> StateUpdate list \<Rightarrow> 'a list" where
  "writes_to key us = List.map_filter key us"

definition or_reducer :: "bool \<Rightarrow> bool list \<Rightarrow> bool" where
  "or_reducer old vs = foldl (\<or>) old vs"

definition last_value :: "'a \<Rightarrow> 'a list \<Rightarrow> 'a" where
  "last_value old vs = (case vs of [] \<Rightarrow> old | v # _ \<Rightarrow> v)"

definition apply_writes :: "WorkUpdateState \<Rightarrow> StateUpdate list \<Rightarrow> exn + WorkUpdateState" where
  "apply_writes s us =
     (if 1 < length (writes_to upd_user_email us)
       \<or> 1 < length (writes_to upd_current_time us)
       \<or> 1 < length (writes_to upd_slack_message_sent us)
       \<or> 1 < length (writes_to upd_email_agent us)
       \<or> 1 < length (writes_to upd_slack_agent us)
      then Inl InvalidUpdateError
      else Inr
        \<lparr>user_email = last_value (user_email s) (writes_to upd_user_email us),
         update_received = or_reducer (update_received s) (writes_to upd_update_received us),
         current_time = last_value (current_time s) (writes_to upd_current_time us),
         reminder_sent = or_reducer (reminder_sent s) (writes_to upd_reminder_sent us),
         slack_message_sent =
           last_value (slack_message_sent s) (writes_to upd_slack_message_sent us),
         email_agent = last_value (email_agent s) (writes_to upd_email_agent us),
         slack_agent = last_value (slack_agent s) (writes_to upd_slack_agent us)\<rparr>)"

text \<open>The state a conditional edge reads after a node: the channels with that node's own
  writes applied.\<close>

definition fresh_read :: "WorkUpdateState \<Rightarrow> StateUpdate \<Rightarrow> WorkUpdateState" where
  "fresh_read s u = (case apply_writes s [u] of Inr s' \<Rightarrow> s' | Inl e \<Rightarrow> s)"

text \<open>The channels of a graph that starts on an input holding all seven keys: the input is
  written into fresh channels.\<close>

definition read_input :: "WorkUpdateState \<Rightarrow> WorkUpdateState" where
  "read_input input =
     input\<lparr>update_received := or_reducer False [update_received input],
           reminder_sent := or_reducer False [reminder_sent input]\<rparr>"

section \<open>Graphs and their execution\<close>

text \<open>
  The program builds its four graphs with a graph library and runs them with the library's
  step loop. What the program uses of it is written out here: a graph is its nodes, its
  edges and its conditional edges; a run proceeds in steps, each step running the nodes
  triggered by the step before and then applying their returned dictionaries to the
  channels.
\<close>

type_synonym node = "WorkUpdateState \<Rightarrow> call list \<Rightarrow> (exn + StateUpdate) \<times> call list"

record StateGraph =
  nodes :: "(string \<times> node) list"
  edges :: "(string \<times> string) list"
  branches :: "(string \<times> (WorkUpdateState \<Rightarrow> string)) list"

definition START :: string where "START = ''__start__''"
definition END :: string where "END = ''__end__''"

definition StateGraph_init :: StateGraph where
  "StateGraph_init = \<lparr>nodes = [], edges = [], branches = []\<rparr>"

definition add_node :: "string \<Rightarrow> node \<Rightarrow> StateGraph \<Rightarrow> StateGraph" where
  "add_node name action g = g\<lparr>nodes := nodes g @ [(name, action)]\<rparr>"

definition add_edge :: "string \<Rightarrow> string \<Rightarrow> StateGraph \<Rightarrow> StateGraph" where
  "add_edge start_key end_key g = g\<lparr>edges := edges g @ [(start_key, end_key)]\<rparr>"

definition add_conditional_edges ::
  "string \<Rightarrow> (WorkUpdateState \<Rightarrow> string) \<Rightarrow> StateGraph \<Rightarrow> StateGraph" where
  "add_conditional_edges source path g = g\<lparr>branches := branches g @ [(source, path)]\<rparr>"

definition set_conditional_entry_point ::
  "(WorkUpdateState \<Rightarrow> string) \<Rightarrow> StateGraph \<Rightarrow> StateGraph" where
  "set_conditional_entry_point path g = add_conditional_edges START path g"

text \<open>A builder is the sequence of its calls, applied in order.\<close>

definition build :: "(StateGraph \<Rightarrow> StateGraph) list \<Rightarrow> StateGraph" where
  "build calls = foldl (\<lambda>g c. c g) StateGraph_init calls"

text \<open>
  The names a finished node (or START) sends the run to: the end of every edge that
  leaves it, and the result of every conditional edge attached to it, evaluated on the
  state it reads. An unconditional edge and a conditional edge out of one source are both
  followed.
\<close>

definition targets :: "StateGraph \<Rightarrow> string \<Rightarrow> WorkUpdateState \<Rightarrow> string list" where
  "targets g name seen =
     map snd (filter (\<lambda>e. fst e = name) (edges g))
     @ map (\<lambda>b. snd b seen) (filter (\<lambda>b. fst b = name) (branches g))"

text \<open>The nodes a list of names triggers, each once. END is no node, so it triggers none.\<close>

definition triggered :: "StateGraph \<Rightarrow> string list \<Rightarrow> (string \<times> node) list" where
  "triggered g names = filter (\<lambda>n. fst n \<in> set names) (nodes g)"

text \<open>
  One step runs every triggered node on the same state. The engine starts them together;
  the model runs them in the order the graph declares them and stops at the first exception.
  So the order of the calls made within one step, and whether a node's call is still made
  when another node of the step raises, are fixed here by the model and not by the engine.
\<close>

fun run_tasks ::
  "(string \<times> node) list \<Rightarrow> WorkUpdateState \<Rightarrow> call list
     \<Rightarrow> (exn + (string \<times> StateUpdate) list) \<times> call list" where
  "run_tasks [] s tr = (Inr [], tr)"
| "run_tasks (t # ts) s tr =
     (case snd t s tr of
        (Inl e, tr') \<Rightarrow> (Inl e, tr')
      | (Inr u, tr') \<Rightarrow>
          (case run_tasks ts s tr' of
             (Inl e, tr'') \<Rightarrow> (Inl e, tr'')
           | (Inr outs, tr'') \<Rightarrow> (Inr ((fst t, u) # outs), tr'')))"

text \<open>
  The loop of steps. It ends when no node is triggered, and raises GraphRecursionError
  when the step budget is used up before that. The result is the outcome (the final state
  or the exception), the states after the input and after each step, and the trace.
\<close>

type_synonym run_result = "(exn + WorkUpdateState) \<times> WorkUpdateState list \<times> call list"

fun pregel_loop ::
  "nat \<Rightarrow> StateGraph \<Rightarrow> (string \<times> node) list \<Rightarrow> WorkUpdateState
     \<Rightarrow> WorkUpdateState list \<Rightarrow> call list \<Rightarrow> run_result" where
  "pregel_loop 0 g tasks s hist tr =
     (if tasks = [] then (Inr s, hist, tr) else (Inl GraphRecursionError, hist, tr))"
| "pregel_loop (Suc budget) g tasks s hist tr =
     (if tasks = [] then (Inr s, hist, tr)
      else case run_tasks tasks s tr of
        (Inl e, tr') \<Rightarrow> (Inl e, hist, tr')
      | (Inr outs, tr') \<Rightarrow>
          (case apply_writes s (map snd outs) of
             Inl e \<Rightarrow> (Inl e, hist, tr')
           | Inr s' \<Rightarrow>
               pregel_loop budget g
                 (triggered g (concat (map (\<lambda>out. targets g (fst out) (fresh_read s (snd out))) outs)))
                 s' (hist @ [s']) tr'))"

definition recursion_limit :: nat where
  "recursion_limit = 25"

definition invoke :: "StateGraph \<Rightarrow> WorkUpdateState \<Rightarrow> call list \<Rightarrow> run_result" where
  "invoke g input tr =
     (let s0 = read_input input
      in pregel_loop recursion_limit g (triggered g (targets g START s0)) s0 [s0] tr)"

text \<open>A compiled graph used as a node of another graph: its final state is the node's
  returned dictionary.\<close>

definition invoke_as_node :: "StateGraph \<Rightarrow> node" where
  "invoke_as_node g state tr =
     (case invoke g state tr of
        (Inl e, hist, tr') \<Rightarrow> (Inl e, tr')
      | (Inr final, hist, tr') \<Rightarrow> (Inr (dict_of final), tr'))"

text \<open>The three methods that run a sub-workflow as a node of the main graph, each on the
  compiled sub-workflow it invokes.\<close>

definition run_email_update_subgraph :: "StateGraph \<Rightarrow> node" where
  "run_email_update_subgraph email_update_subgraph' = invoke_as_node email_update_subgraph'"

definition run_time_check_subgraph :: "StateGraph \<Rightarrow> node" where
  "run_time_check_subgraph time_check_subgraph' = invoke_as_node time_check_subgraph'"

definition run_reminder_subgraph :: "StateGraph \<Rightarrow> node" where
  "run_reminder_subgraph reminder_subgraph' = invoke_as_node reminder_subgraph'"

section \<open>The work-update workflow\<close>

text \<open>The three formatted strings of the stages, as functions of the address they embed.\<close>

definition update_query :: "string \<Rightarrow> string" where
  "update_query address = ''Check if '' @ address @ '' has sent a work update today''"

definition reminder_text :: "string \<Rightarrow> string" where
  "reminder_text address = ''Reminder: Please send your work update via email to '' @ address"

definition reminder_query :: "string \<Rightarrow> string" where
  "reminder_query address =
     ''Send an email to '' @ address @ '' reminding them to send their work update''"

text \<open>\<^verbatim>\<open>any(marker in result.content.lower() for result in results)\<close>.\<close>

definition any_contains :: "string \<Rightarrow> message list \<Rightarrow> bool" where
  "any_contains marker results =
     list_ex (\<lambda>result. str_in marker (lower (content result))) results"

definition check_email_update :: "env \<Rightarrow> node" where
  "check_email_update w state tr =
     (let query = update_query (user_email state)
      in case process_query w query tr of
        (Inl e, tr') \<Rightarrow> (Inl e, tr')
      | (Inr results, tr') \<Rightarrow>
          (let update_received' = any_contains ''work update found'' results
           in (Inr (dict_of (state\<lparr>update_received := update_received'\<rparr>)), tr')))"

definition check_time :: "env \<Rightarrow> node" where
  "check_time w state tr =
     (let current_time' = now w tr
      in (Inr (dict_of (state\<lparr>current_time := current_time'\<rparr>)), tr @ [Now]))"

definition send_slack_reminder :: "env \<Rightarrow> SlackAgent \<Rightarrow> node" where
  "send_slack_reminder w agent state tr =
     (let message = reminder_text (user_email state)
      in case send_slack_message w agent message tr of
        (Inl e, tr') \<Rightarrow> (Inl e, tr')
      | (Inr slack_sent, tr') \<Rightarrow>
          (Inr (dict_of (state\<lparr>slack_message_sent := slack_sent, reminder_sent := slack_sent\<rparr>)),
           tr'))"

definition send_email_reminder :: "env \<Rightarrow> node" where
  "send_email_reminder w state tr =
     (let query = reminder_query (user_email state)
      in case process_query w query tr of
        (Inl e, tr') \<Rightarrow> (Inl e, tr')
      | (Inr results, tr') \<Rightarrow>
          (let email_sent = any_contains ''email sent'' results
           in (Inr (dict_of (state\<lparr>reminder_sent := email_sent\<rparr>)), tr')))"

record WorkUpdateWorkflow =
  self_email_agent :: EmailAgent
  self_slack_agent :: SlackAgent
  time_check_subgraph :: StateGraph
  email_update_subgraph :: StateGraph
  reminder_subgraph :: StateGraph
  workflow :: StateGraph

definition reminder_entry :: "WorkUpdateState \<Rightarrow> string" where
  "reminder_entry state =
     (if \<not> update_received state \<and> time_lt (time_part (current_time state)) (mk_time 21 0)
      then ''send_slack_reminder'' else ''send_email_reminder'')"

definition reminder_needed :: "WorkUpdateState \<Rightarrow> string" where
  "reminder_needed state = (if \<not> update_received state then ''send_reminder'' else END)"

definition WorkUpdateWorkflow_init :: "env \<Rightarrow> string \<Rightarrow> WorkUpdateWorkflow" where
  "WorkUpdateWorkflow_init w user_email_arg =
     (let email_agent' = EmailAgent;
          slack_agent' = SlackAgent_init ''enter-your-slack-token'' ''enter-channel-id'';
          time_check_graph = build
            [add_node ''check_time'' (check_time w),
             add_edge START ''check_time'',
             add_edge ''check_time'' END];
          email_update_graph = build
            [add_node ''check_email_update'' (check_email_update w),
             add_edge START ''check_email_update'',
             add_edge ''check_email_update'' END];
          reminder_graph = build
            [add_node ''send_slack_reminder'' (send_slack_reminder w slack_agent'),
             add_node ''send_email_reminder'' (send_email_reminder w),
             add_edge START ''send_slack_reminder'',
             set_conditional_entry_point reminder_entry,
             add_edge ''send_slack_reminder'' END,
             add_edge ''send_email_reminder'' END];
          builder = build
            [add_node ''email_update_check'' (run_email_update_subgraph email_update_graph),
             add_node ''time_check'' (run_time_check_subgraph time_check_graph),
             add_node ''send_reminder'' (run_reminder_subgraph reminder_graph),
             add_edge START ''email_update_check'',
             add_edge ''email_update_check'' ''time_check'',
             add_conditional_edges ''time_check'' reminder_needed,
             add_edge ''send_reminder'' END]
      in \<lparr>self_email_agent = email_agent',
          self_slack_agent = slack_agent',
          time_check_subgraph = time_check_graph,
          email_update_subgraph = email_update_graph,
          reminder_subgraph = reminder_graph,
          workflow = builder\<rparr>)"

text \<open>
  \<^verbatim>\<open>run_workflow\<close> builds the initial state, reading the clock for \<^verbatim>\<open>current_time\<close>, and
  streams the main graph. The Python prints each step and returns nothing; the model
  returns what the run produced.
\<close>

definition hard_coded_email :: string where
  "hard_coded_email = ''jhananinallasamy1234@gmail.com''"

definition initial_state :: "env \<Rightarrow> WorkUpdateWorkflow \<Rightarrow> call list \<Rightarrow> WorkUpdateState" where
  "initial_state w self tr =
     \<lparr>user_email = hard_coded_email,
      update_received = False,
      current_time = now w tr,
      reminder_sent = False,
      slack_message_sent = False,
      email_agent = Some (self_email_agent self),
      slack_agent = Some (self_slack_agent self)\<rparr>"

definition run_workflow :: "env \<Rightarrow> WorkUpdateWorkflow \<Rightarrow> run_result" where
  "run_workflow w self = invoke (workflow self) (initial_state w self []) [Now]"

text \<open>\<^verbatim>\<open>main\<close>: the entry point passes its own address to the constructor.\<close>

definition main :: "env \<Rightarrow> run_result" where
  "main w = run_workflow w (WorkUpdateWorkflow_init w ''jhananinallasamy@gmail.com'')"

section \<open>The states and environments used in the statements below\<close>

text \<open>
  Every state of a run of \<^verbatim>\<open>run_workflow\<close> has the hard-coded address and the two agent
  references of the initial state; \<open>run_state\<close> builds such a state from the four entries
  that can differ.
\<close>

definition run_state :: "datetime \<Rightarrow> bool \<Rightarrow> bool \<Rightarrow> bool \<Rightarrow> WorkUpdateState" where
  "run_state t ur rs sms =
     \<lparr>user_email = hard_coded_email, update_received = ur, current_time = t,
      reminder_sent = rs, slack_message_sent = sms, email_agent = Some EmailAgent,
      slack_agent = Some (SlackAgent_init ''enter-your-slack-token'' ''enter-channel-id'')\<rparr>"

text \<open>
  Concrete environments: a clock that always shows the same time, an agent that streams two
  events (the instruction it was given, then its answer), and a chat service with a fixed
  outcome. \<open>ticking_env\<close> has a clock that advances by one minute with every call made.
\<close>

definition clock_at :: "nat \<Rightarrow> nat \<Rightarrow> datetime" where
  "clock_at h m = \<lparr>date_part = \<lparr>year = 2025, month = 1, day = 15\<rparr>, time_part = mk_time h m\<rparr>"

definition reply :: "string \<Rightarrow> event" where
  "reply s = \<lparr>messages = [\<lparr>content = s\<rparr>]\<rparr>"

definition fixed_env :: "datetime \<Rightarrow> string \<Rightarrow> exn + unit \<Rightarrow> env" where
  "fixed_env t answer post =
     \<lparr>now = (\<lambda>tr. t),
      agent_stream = (\<lambda>tr query. Inr [reply query, reply answer]),
      chat_postMessage = (\<lambda>tr channel msg. post)\<rparr>"

definition ticking_env :: env where
  "ticking_env =
     \<lparr>now = (\<lambda>tr. clock_at 20 (length tr)),
      agent_stream = (\<lambda>tr query. Inr [reply query, reply ''Work update found.'']),
      chat_postMessage = (\<lambda>tr channel msg. Inr ())\<rparr>"

section \<open>Notions of the specification\<close>

text \<open>
  ``The text contains the phrase, ignoring case'', in the specification's words: at some
  position of the text stands a piece as long as the phrase that equals it once both are
  lower-cased. The program's own test (\<open>str_in\<close> on the lower-cased text) is compared with
  it below.
\<close>

definition occurs_ignoring_case :: "string \<Rightarrow> string \<Rightarrow> bool" where
  "occurs_ignoring_case phrase s =
     list_ex (\<lambda>i. lower (take (length phrase) (drop i s)) = lower phrase) [0..<Suc (length s)]"

text \<open>``Monotonic non-decreasing'': neither flag goes from true to false between two states
  (on truth values, \<open>False \<le> True\<close>).\<close>

definition flags_le :: "WorkUpdateState \<Rightarrow> WorkUpdateState \<Rightarrow> bool" where
  "flags_le s s' = (update_received s \<le> update_received s' \<and> reminder_sent s \<le> reminder_sent s')"

text \<open>
  An agent whose third step runs two tools at once: its events are the growing message
  list after the input and after each step.
\<close>

definition parallel_tools_env :: env where
  "parallel_tools_env =
     \<lparr>now = (\<lambda>tr. clock_at 20 30),
      agent_stream = (\<lambda>tr query. Inr
        [\<lparr>messages = [\<lparr>content = query\<rparr>]\<rparr>,
         \<lparr>messages = [\<lparr>content = query\<rparr>, \<lparr>content = ''calling two tools''\<rparr>]\<rparr>,
         \<lparr>messages = [\<lparr>content = query\<rparr>, \<lparr>content = ''calling two tools''\<rparr>,
                      \<lparr>content = ''inbox: nothing''\<rparr>, \<lparr>content = ''sent folder: nothing''\<rparr>]\<rparr>,
         \<lparr>messages = [\<lparr>content = query\<rparr>, \<lparr>content = ''calling two tools''\<rparr>,
                      \<lparr>content = ''inbox: nothing''\<rparr>, \<lparr>content = ''sent folder: nothing''\<rparr>,
                      \<lparr>content = ''No update today.''\<rparr>]\<rparr>]),
      chat_postMessage = (\<lambda>tr channel msg. Inr ())\<rparr>"

section \<open>Channels, collaborators and the three sub-workflows in closed form\<close>


lemma read_input_id: "read_input s = s"
  by (simp add: read_input_def or_reducer_def)

lemma apply_writes_single:
  "apply_writes s [dict_of s'] = Inr (s'\<lparr>update_received := update_received s \<or> update_received s',
      reminder_sent := reminder_sent s \<or> reminder_sent s'\<rparr>)"
  by (simp add: apply_writes_def dict_of_def writes_to_def List.map_filter_simps or_reducer_def last_value_def)

lemma fresh_read_dict:
  "fresh_read s (dict_of s') = s'\<lparr>update_received := update_received s \<or> update_received s',
      reminder_sent := reminder_sent s \<or> reminder_sent s'\<rparr>"
  by (simp add: fresh_read_def apply_writes_single)

lemma apply_writes_double:
  "apply_writes s [dict_of a, dict_of b] = Inl InvalidUpdateError"
  by (simp add: apply_writes_def dict_of_def writes_to_def List.map_filter_simps)

lemmas graph_defs = build_def StateGraph_init_def add_node_def add_edge_def add_conditional_edges_def
  set_conditional_entry_point_def targets_def triggered_def START_def END_def

lemmas run_defs = invoke_def Let_def graph_defs read_input_id
      recursion_limit_def eval_nat_numeral apply_writes_single fresh_read_dict

lemma process_query_eq:
  "process_query w q tr = (fst (process_query w q tr), tr @ [AgentStream q])"
  by (simp add: process_query_def split: sum.splits)

lemma send_slack_message_eq:
  "send_slack_message w ag msg tr =
     (fst (send_slack_message w ag msg tr), tr @ [ChatPostMessage (channel_id ag) msg])"
  by (simp add: send_slack_message_def split: sum.splits exn.splits)

lemma invoke_time_check:
  "invoke (time_check_subgraph (WorkUpdateWorkflow_init w a)) s tr =
     (Inr (s\<lparr>current_time := now w tr\<rparr>), [s, s\<lparr>current_time := now w tr\<rparr>], tr @ [Now])"
  by (simp add: WorkUpdateWorkflow_init_def run_defs check_time_def)

lemma invoke_email_update:
  "invoke (email_update_subgraph (WorkUpdateWorkflow_init w a)) s tr =
     (case fst (process_query w (update_query (user_email s)) tr) of
        Inl e \<Rightarrow> (Inl e, [s], tr @ [AgentStream (update_query (user_email s))])
      | Inr results \<Rightarrow>
         (Inr (s\<lparr>update_received := update_received s \<or> any_contains ''work update found'' results\<rparr>),
          [s, s\<lparr>update_received := update_received s \<or> any_contains ''work update found'' results\<rparr>],
          tr @ [AgentStream (update_query (user_email s))]))"
proof (cases "fst (process_query w (update_query (user_email s)) tr)")
  case (Inl e)
  with process_query_eq [of w "update_query (user_email s)" tr]
  have "process_query w (update_query (user_email s)) tr =
          (Inl e, tr @ [AgentStream (update_query (user_email s))])" by simp
  with Inl show ?thesis
    by (simp add: WorkUpdateWorkflow_init_def run_defs check_email_update_def)
next
  case (Inr results)
  with process_query_eq [of w "update_query (user_email s)" tr]
  have "process_query w (update_query (user_email s)) tr =
          (Inr results, tr @ [AgentStream (update_query (user_email s))])" by simp
  with Inr show ?thesis
    by (simp add: WorkUpdateWorkflow_init_def run_defs check_email_update_def)
qed


lemma reminder_entry_cases:
  "reminder_entry s = ''send_slack_reminder'' \<or> reminder_entry s = ''send_email_reminder''"
  by (simp add: reminder_entry_def)

lemma invoke_reminder:
  "invoke (reminder_subgraph (WorkUpdateWorkflow_init w a)) s tr =
     (case fst (send_slack_message w (self_slack_agent (WorkUpdateWorkflow_init w a))
                  (reminder_text (user_email s)) tr) of
        Inl e \<Rightarrow> (Inl e, [s], tr @ [ChatPostMessage ''enter-channel-id'' (reminder_text (user_email s))])
      | Inr b \<Rightarrow>
          if reminder_entry s = ''send_slack_reminder''
          then (Inr (s\<lparr>slack_message_sent := b, reminder_sent := reminder_sent s \<or> b\<rparr>),
                [s, s\<lparr>slack_message_sent := b, reminder_sent := reminder_sent s \<or> b\<rparr>],
                tr @ [ChatPostMessage ''enter-channel-id'' (reminder_text (user_email s))])
          else (case fst (process_query w (reminder_query (user_email s))
                       (tr @ [ChatPostMessage ''enter-channel-id'' (reminder_text (user_email s))])) of
                  Inl e \<Rightarrow> (Inl e, [s],
                     tr @ [ChatPostMessage ''enter-channel-id'' (reminder_text (user_email s)),
                           AgentStream (reminder_query (user_email s))])
                | Inr results \<Rightarrow> (Inl InvalidUpdateError, [s],
                     tr @ [ChatPostMessage ''enter-channel-id'' (reminder_text (user_email s)),
                           AgentStream (reminder_query (user_email s))])))"
proof -
  let ?ag = "SlackAgent_init ''enter-your-slack-token'' ''enter-channel-id''"
  let ?msg = "reminder_text (user_email s)"
  let ?tr1 = "tr @ [ChatPostMessage ''enter-channel-id'' ?msg]"
  let ?q = "reminder_query (user_email s)"
  have ag: "self_slack_agent (WorkUpdateWorkflow_init w a) = ?ag"
    by (simp add: WorkUpdateWorkflow_init_def Let_def)
  have ch: "channel_id ?ag = ''enter-channel-id''"
    by (simp add: SlackAgent_init_def)
  have sl: "send_slack_message w ?ag ?msg tr = (fst (send_slack_message w ?ag ?msg tr), ?tr1)"
    using send_slack_message_eq [of w ?ag ?msg tr] ch by simp
  have pq: "process_query w ?q ?tr1 = (fst (process_query w ?q ?tr1), ?tr1 @ [AgentStream ?q])"
    by (rule process_query_eq)
  show ?thesis
  proof (cases "fst (send_slack_message w ?ag ?msg tr)")
    case (Inl e)
    with sl have sl': "send_slack_message w ?ag ?msg tr = (Inl e, ?tr1)" by simp
    from reminder_entry_cases [of s] show ?thesis
    proof
      assume "reminder_entry s = ''send_slack_reminder''"
      with sl' Inl ag show ?thesis
        by (simp add: WorkUpdateWorkflow_init_def run_defs send_slack_reminder_def)
    next
      assume "reminder_entry s = ''send_email_reminder''"
      with sl' Inl ag show ?thesis
        by (simp add: WorkUpdateWorkflow_init_def run_defs send_slack_reminder_def)
    qed
  next
    case (Inr b)
    with sl have sl': "send_slack_message w ?ag ?msg tr = (Inr b, ?tr1)" by simp
    from reminder_entry_cases [of s] show ?thesis
    proof
      assume "reminder_entry s = ''send_slack_reminder''"
      with sl' Inr ag show ?thesis
        by (simp add: WorkUpdateWorkflow_init_def run_defs send_slack_reminder_def)
    next
      assume re: "reminder_entry s = ''send_email_reminder''"
      show ?thesis
      proof (cases "fst (process_query w ?q ?tr1)")
        case (Inl e)
        with pq have "process_query w ?q ?tr1 = (Inl e, ?tr1 @ [AgentStream ?q])" by simp
        with re sl' Inr Inl ag show ?thesis
          by (simp add: WorkUpdateWorkflow_init_def run_defs send_slack_reminder_def
              send_email_reminder_def)
      next
        case (Inr results)
        with pq have "process_query w ?q ?tr1 = (Inr results, ?tr1 @ [AgentStream ?q])" by simp
        with re sl' \<open>fst (send_slack_message w ?ag ?msg tr) = Inr b\<close> Inr ag show ?thesis
          by (simp add: WorkUpdateWorkflow_init_def run_defs send_slack_reminder_def
              send_email_reminder_def apply_writes_double)
      qed
    qed
  qed
qed


lemma workflow_unfold:
  "workflow (WorkUpdateWorkflow_init w a) = build
     [add_node ''email_update_check'' (invoke_as_node (email_update_subgraph (WorkUpdateWorkflow_init w a))),
      add_node ''time_check'' (invoke_as_node (time_check_subgraph (WorkUpdateWorkflow_init w a))),
      add_node ''send_reminder'' (invoke_as_node (reminder_subgraph (WorkUpdateWorkflow_init w a))),
      add_edge START ''email_update_check'',
      add_edge ''email_update_check'' ''time_check'',
      add_conditional_edges ''time_check'' reminder_needed,
      add_edge ''send_reminder'' END]"
  by (simp add: WorkUpdateWorkflow_init_def Let_def run_email_update_subgraph_def
      run_time_check_subgraph_def run_reminder_subgraph_def)

lemmas step_defs = Let_def graph_defs read_input_id
      recursion_limit_def eval_nat_numeral apply_writes_single fresh_read_dict


lemma run_workflow_closed:
  "run_workflow w (WorkUpdateWorkflow_init w a) =
     (let q = update_query hard_coded_email;
          t0 = now w [];
          t1 = now w [Now, AgentStream q];
          post = ChatPostMessage ''enter-channel-id'' (reminder_text hard_coded_email);
          rq = reminder_query hard_coded_email
      in case fst (process_query w q [Now]) of
        Inl e \<Rightarrow> (Inl e, [run_state t0 False False False], [Now, AgentStream q])
      | Inr results \<Rightarrow>
          if any_contains ''work update found'' results
          then (Inr (run_state t1 True False False),
                [run_state t0 False False False, run_state t0 True False False, run_state t1 True False False],
                [Now, AgentStream q, Now])
          else (case fst (send_slack_message w (self_slack_agent (WorkUpdateWorkflow_init w a))
                       (reminder_text hard_coded_email) [Now, AgentStream q, Now]) of
              Inl e \<Rightarrow> (Inl e,
                [run_state t0 False False False, run_state t0 False False False, run_state t1 False False False],
                [Now, AgentStream q, Now, post])
            | Inr b \<Rightarrow>
                if time_lt (time_part t1) (mk_time 21 0)
                then (Inr (run_state t1 False b b),
                      [run_state t0 False False False, run_state t0 False False False, run_state t1 False False False,
                       run_state t1 False b b],
                      [Now, AgentStream q, Now, post])
                else (case fst (process_query w rq [Now, AgentStream q, Now, post]) of
                    Inl e \<Rightarrow> (Inl e,
                      [run_state t0 False False False, run_state t0 False False False, run_state t1 False False False],
                      [Now, AgentStream q, Now, post, AgentStream rq])
                  | Inr sent \<Rightarrow> (Inl InvalidUpdateError,
                      [run_state t0 False False False, run_state t0 False False False, run_state t1 False False False],
                      [Now, AgentStream q, Now, post, AgentStream rq]))))"
  unfolding run_workflow_def
  apply (subst invoke_def)
  apply (simp add: workflow_unfold step_defs invoke_as_node_def invoke_email_update
        invoke_time_check invoke_reminder reminder_needed_def reminder_entry_def
        initial_state_def run_state_def WorkUpdateWorkflow_init_def [of w a, THEN arg_cong [of _ _ self_slack_agent]]
        WorkUpdateWorkflow_init_def [of w a, THEN arg_cong [of _ _ self_email_agent]]
        split: sum.splits)
  done



section \<open>Runs in the concrete environments\<close>

lemma time_lt_21: "time_lt t (mk_time 21 0) \<longleftrightarrow> hour t < 21"
  by (auto simp: time_lt_def mk_time_def)

lemma update_query_no_marker:
  "\<not> str_in ''work update found'' (lower (update_query hard_coded_email))"
  by code_simp

lemma reminder_query_no_marker:
  "\<not> str_in ''email sent'' (lower (reminder_query hard_coded_email))"
  by code_simp

lemma process_query_fixed_env:
  "fst (process_query (fixed_env t answer post) q tr) = Inr [\<lparr>content = q\<rparr>, \<lparr>content = answer\<rparr>]"
  by (simp add: process_query_def fixed_env_def reply_def last_message_def)

lemma send_slack_message_fixed_env:
  "fst (send_slack_message (fixed_env t answer post) ag msg tr) =
     (case post of Inr response \<Rightarrow> Inr True | Inl SlackApiError \<Rightarrow> Inr False | Inl e \<Rightarrow> Inl e)"
  by (simp add: send_slack_message_def fixed_env_def split: sum.splits exn.splits)

lemma now_fixed_env: "now (fixed_env t answer post) tr = t"
  by (simp add: fixed_env_def)

lemma main_fixed_env_found:
  assumes "str_in ''work update found'' (lower answer)"
  shows "main (fixed_env t answer post) =
     (Inr (run_state t True False False),
      [run_state t False False False, run_state t True False False, run_state t True False False],
      [Now, AgentStream (update_query hard_coded_email), Now])"
  using assms
  by (simp add: main_def run_workflow_closed Let_def process_query_fixed_env now_fixed_env
      any_contains_def)

lemma main_fixed_env_early:
  assumes "\<not> str_in ''work update found'' (lower answer)"
    and "time_lt (time_part t) (mk_time 21 0)"
    and "post = Inr () \<or> post = Inl SlackApiError"
  shows "main (fixed_env t answer post) =
     (Inr (run_state t False (post = Inr ()) (post = Inr ())),
      [run_state t False False False, run_state t False False False, run_state t False False False,
       run_state t False (post = Inr ()) (post = Inr ())],
      [Now, AgentStream (update_query hard_coded_email), Now,
       ChatPostMessage ''enter-channel-id'' (reminder_text hard_coded_email)])"
  using assms
  by (auto simp: main_def run_workflow_closed Let_def process_query_fixed_env now_fixed_env
      any_contains_def update_query_no_marker send_slack_message_fixed_env)

lemma main_fixed_env_late:
  assumes "\<not> str_in ''work update found'' (lower answer)"
    and "\<not> time_lt (time_part t) (mk_time 21 0)"
    and "post = Inr () \<or> post = Inl SlackApiError"
  shows "main (fixed_env t answer post) =
     (Inl InvalidUpdateError,
      [run_state t False False False, run_state t False False False, run_state t False False False],
      [Now, AgentStream (update_query hard_coded_email), Now,
       ChatPostMessage ''enter-channel-id'' (reminder_text hard_coded_email),
       AgentStream (reminder_query hard_coded_email)])"
  using assms
  by (auto simp: main_def run_workflow_closed Let_def process_query_fixed_env now_fixed_env
      any_contains_def update_query_no_marker send_slack_message_fixed_env)

lemma found_answer: "str_in ''work update found'' (lower ''Work update found.'')"
  by code_simp

lemma nothing_answer: "\<not> str_in ''work update found'' (lower ''Nothing yet.'')"
  by code_simp

lemma sent_answer: "\<not> str_in ''work update found'' (lower ''Email sent.'')
    \<and> str_in ''email sent'' (lower ''Email sent.'')"
  by code_simp

lemma clock_early: "time_lt (time_part (clock_at 20 30)) (mk_time 21 0)"
  by (simp add: clock_at_def mk_time_def time_lt_def)

lemma clock_late: "\<not> time_lt (time_part (clock_at 21 30)) (mk_time 21 0)"
  by (simp add: clock_at_def mk_time_def time_lt_def)

section \<open>C3: an update that was received ends the run after the time check\<close>

text \<open>
  Claim C3. Whenever a run of the workflow has \<open>update_received\<close> true after the
  update-check stage (the second state of the run, the first being the input), the run
  ends normally right after the time-check stage: it has exactly three states, it returns
  the last of them, and its trace is the clock reading of the initial state, the
  update-check instruction and the clock reading of the time check. No reminder node runs,
  so neither the chat service nor the agent is called again.
\<close>

theorem update_received_skips_reminder:
  assumes "run_workflow w (WorkUpdateWorkflow_init w a) = (r, hist, tr)"
    and "1 < length hist"
    and "update_received (hist ! 1)"
  shows "(\<exists>final. r = Inr final \<and> final = last hist) \<and> length hist = 3
         \<and> tr = [Now, AgentStream (update_query hard_coded_email), Now]"
  using assms
  by (auto simp: run_workflow_closed Let_def run_state_def split: sum.splits if_splits)

theorem update_received_skips_reminder_witness:
  "1 < length (fst (snd (main (fixed_env (clock_at 20 30) ''Work update found.'' (Inr ())))))
   \<and> update_received (fst (snd (main (fixed_env (clock_at 20 30) ''Work update found.'' (Inr ())))) ! 1)
   \<and> length (fst (snd (main (fixed_env (clock_at 20 30) ''Work update found.'' (Inr ()))))) = 3
   \<and> snd (snd (main (fixed_env (clock_at 20 30) ''Work update found.'' (Inr ())))) =
       [Now, AgentStream (update_query hard_coded_email), Now]"
proof -
  let ?w = "fixed_env (clock_at 20 30) ''Work update found.'' (Inr ())"
  let ?R = "run_workflow ?w (WorkUpdateWorkflow_init ?w ''jhananinallasamy@gmail.com'')"
  have run: "?R = (fst ?R, fst (snd ?R), snd (snd ?R))" by simp
  have ev: "main ?w = ?R" by (simp add: main_def)
  note m = main_fixed_env_found [OF found_answer, of "clock_at 20 30" "Inr ()", unfolded ev]
  have h1: "1 < length (fst (snd ?R))" by (simp add: m)
  have h2: "update_received (fst (snd ?R) ! 1)" by (simp add: m run_state_def)
  from update_received_skips_reminder [OF run h1 h2] h1 h2 show ?thesis
    by (simp add: main_def)
qed

section \<open>C10: the constructor ignores its argument\<close>




section \<open>C4: before 21:00 the reminder goes to the chat service only\<close>

text \<open>
  Claim C4. Whenever a run reaches the state after the time check (the third state) with
  \<open>update_received\<close> false and a recorded time of day strictly before 21:00, the calls of the
  run are the two of the earlier stages followed by exactly one post to the chat service,
  with the fixed reminder text, and no instruction to send a reminder email. Whatever
  boolean the send call returns is the final value of both \<open>slack_message_sent\<close> and
  \<open>reminder_sent\<close>, and the run ends normally in its fourth state.
\<close>

theorem early_reminder_goes_to_chat_only:
  assumes "run_workflow w (WorkUpdateWorkflow_init w a) = (r, hist, tr)"
    and "2 < length hist"
    and "\<not> update_received (hist ! 2)"
    and "time_lt (time_part (current_time (hist ! 2))) (mk_time 21 0)"
  shows "tr = [Now, AgentStream (update_query hard_coded_email), Now,
               ChatPostMessage ''enter-channel-id'' (reminder_text hard_coded_email)]
         \<and> (\<forall>b. fst (send_slack_message w (self_slack_agent (WorkUpdateWorkflow_init w a))
                       (reminder_text hard_coded_email)
                       [Now, AgentStream (update_query hard_coded_email), Now]) = Inr b
                \<longrightarrow> (\<exists>final. r = Inr final \<and> final = last hist \<and> length hist = 4
                       \<and> slack_message_sent final = b \<and> reminder_sent final = b))"
  using assms
  by (auto simp: run_workflow_closed Let_def run_state_def split: sum.splits if_splits)

theorem early_reminder_goes_to_chat_only_witness:
  "2 < length (fst (snd (main (fixed_env (clock_at 20 30) ''Nothing yet.'' (Inr ())))))
   \<and> \<not> update_received (fst (snd (main (fixed_env (clock_at 20 30) ''Nothing yet.'' (Inr ())))) ! 2)
   \<and> time_lt (time_part (current_time
         (fst (snd (main (fixed_env (clock_at 20 30) ''Nothing yet.'' (Inr ())))) ! 2))) (mk_time 21 0)
   \<and> snd (snd (main (fixed_env (clock_at 20 30) ''Nothing yet.'' (Inr ())))) =
       [Now, AgentStream (update_query hard_coded_email), Now,
        ChatPostMessage ''enter-channel-id'' (reminder_text hard_coded_email)]
   \<and> fst (main (fixed_env (clock_at 20 30) ''Nothing yet.'' (Inr ()))) =
       Inr (run_state (clock_at 20 30) False True True)"
proof -
  let ?w = "fixed_env (clock_at 20 30) ''Nothing yet.'' (Inr ())"
  let ?R = "run_workflow ?w (WorkUpdateWorkflow_init ?w ''jhananinallasamy@gmail.com'')"
  have run: "?R = (fst ?R, fst (snd ?R), snd (snd ?R))" by simp
  have ev: "main ?w = ?R" by (simp add: main_def)
  note m = main_fixed_env_early [OF nothing_answer clock_early, of "Inr ()", unfolded ev, simplified]
  have h1: "2 < length (fst (snd ?R))" by (simp add: m)
  have h2: "\<not> update_received (fst (snd ?R) ! 2)" by (simp add: m run_state_def)
  have h3: "time_lt (time_part (current_time (fst (snd ?R) ! 2))) (mk_time 21 0)"
    using clock_early by (simp add: m run_state_def)
  have b: "fst (send_slack_message ?w (self_slack_agent (WorkUpdateWorkflow_init ?w ''jhananinallasamy@gmail.com''))
                       (reminder_text hard_coded_email)
                       [Now, AgentStream (update_query hard_coded_email), Now]) = Inr True"
    by (simp add: send_slack_message_fixed_env)
  from early_reminder_goes_to_chat_only [OF run h1 h2 h3] b h1 h2 h3 show ?thesis
    by (simp add: main_def m)
qed

section \<open>C2: the two flags never go back to false\<close>

lemma or_reducer_True: "or_reducer True vs"
  unfolding or_reducer_def by (induction vs) auto

lemma apply_writes_mono:
  assumes "apply_writes s us = Inr s'"
  shows "update_received s \<le> update_received s' \<and> reminder_sent s \<le> reminder_sent s'"
  using assms by (auto simp: apply_writes_def or_reducer_True split: if_splits)

lemma pregel_loop_mono:
  assumes "hist \<noteq> []" "last hist = s" "successively flags_le hist"
  shows "successively flags_le (fst (snd (pregel_loop n g tasks s hist tr)))"
  using assms
proof (induction n arbitrary: tasks s hist tr)
  case 0
  then show ?case by simp
next
  case (Suc n)
  show ?case
  proof (cases "tasks = []")
    case True
    with Suc.prems show ?thesis by simp
  next
    case False
    obtain r tr' where rt: "run_tasks tasks s tr = (r, tr')" by (cases "run_tasks tasks s tr")
    show ?thesis
    proof (cases r)
      case (Inl e)
      with rt False Suc.prems show ?thesis by simp
    next
      case (Inr outs)
      show ?thesis
      proof (cases "apply_writes s (map snd outs)")
        case (Inl e)
        with rt Inr False Suc.prems show ?thesis by simp
      next
        case (Inr s')
        from apply_writes_mono [OF Inr] have le: "flags_le s s'" by (simp add: flags_le_def)
        have "successively flags_le (hist @ [s'])"
          using Suc.prems le by (simp add: successively_append_iff)
        then have "successively flags_le (fst (snd (pregel_loop n g
            (triggered g (concat (map (\<lambda>out. targets g (fst out) (fresh_read s (snd out))) outs)))
            s' (hist @ [s']) tr')))"
          by (intro Suc.IH) simp_all
        with rt \<open>r = Inr outs\<close> Inr False show ?thesis by simp
      qed
    qed
  qed
qed

text \<open>
  Claim C2. The flags \<open>update_received\<close> and \<open>reminder_sent\<close> are monotonic non-decreasing:
  whatever dictionaries the nodes of a step return, applying them never turns a true flag
  false (the merge is a logical or); hence in the sequence of states of any graph run, and
  of every run of the workflow, each state's flags are at most those of the next.
\<close>

theorem flags_never_reset:
  "(apply_writes s us = Inr s' \<longrightarrow> flags_le s s')
   \<and> successively flags_le (fst (snd (invoke g input tr)))
   \<and> successively flags_le (fst (snd (run_workflow w self)))"
proof -
  have a: "apply_writes s us = Inr s' \<longrightarrow> flags_le s s'"
    using apply_writes_mono [of s us s'] by (simp add: flags_le_def)
  have b: "successively flags_le (fst (snd (invoke g input tr)))" for g input tr
    unfolding invoke_def Let_def by (rule pregel_loop_mono) simp_all
  from a b show ?thesis by (simp add: run_workflow_def)
qed

theorem flags_never_reset_witness:
  "apply_writes (run_state (clock_at 20 30) True True False)
       [dict_of (run_state (clock_at 20 30) False False False)]
     = Inr (run_state (clock_at 20 30) True True False)
   \<and> flags_le (run_state (clock_at 20 30) True True False)
               (run_state (clock_at 20 30) True True False)
   \<and> successively flags_le (fst (snd (main (fixed_env (clock_at 20 30) ''Work update found.'' (Inr ())))))"
proof -
  let ?s = "run_state (clock_at 20 30) True True False"
  let ?u = "dict_of (run_state (clock_at 20 30) False False False)"
  let ?w = "fixed_env (clock_at 20 30) ''Work update found.'' (Inr ())"
  have h: "apply_writes ?s [?u] = Inr ?s"
    by (simp add: apply_writes_single run_state_def)
  from flags_never_reset [of ?s "[?u]" ?s _ _ _ ?w "WorkUpdateWorkflow_init ?w ''jhananinallasamy@gmail.com''"] h
  show ?thesis by (simp add: main_def)
qed

section \<open>The marker test is a case-insensitive substring test\<close>

lemma startswith_iff: "startswith s sub \<longleftrightarrow> take (length sub) s = sub"
  by (induction s sub rule: startswith.induct) auto

lemma str_in_iff: "str_in sub s \<longleftrightarrow> (\<exists>i\<le>length s. take (length sub) (drop i s) = sub)"
proof (induction s)
  case Nil
  then show ?case by auto
next
  case (Cons d s)
  have "(\<exists>i\<le>length (d # s). take (length sub) (drop i (d # s)) = sub)
        \<longleftrightarrow> take (length sub) (d # s) = sub \<or> (\<exists>j\<le>length s. take (length sub) (drop j s) = sub)"
    (is "?L \<longleftrightarrow> ?A \<or> ?B")
  proof
    assume ?L
    then obtain i where i: "i \<le> length (d # s)" "take (length sub) (drop i (d # s)) = sub" by blast
    show "?A \<or> ?B"
    proof (cases i)
      case 0
      with i show ?thesis by simp
    next
      case (Suc j)
      with i have "j \<le> length s" "take (length sub) (drop j s) = sub" by simp_all
      then show ?thesis by blast
    qed
  next
    assume "?A \<or> ?B"
    then show ?L
    proof
      assume ?A
      then have "0 \<le> length (d # s) \<and> take (length sub) (drop 0 (d # s)) = sub" by simp
      then show ?L by blast
    next
      assume ?B
      then obtain j where "j \<le> length s" "take (length sub) (drop j s) = sub" by blast
      then have "Suc j \<le> length (d # s) \<and> take (length sub) (drop (Suc j) (d # s)) = sub" by simp
      then show ?L by blast
    qed
  qed
  with Cons show ?case by (simp add: startswith_iff)
qed

lemma str_in_lower_iff:
  assumes "lower marker = marker"
  shows "str_in marker (lower s) \<longleftrightarrow> occurs_ignoring_case marker s"
proof -
  have "str_in marker (lower s) \<longleftrightarrow> (\<exists>i\<le>length s. take (length marker) (drop i (lower s)) = marker)"
    by (simp add: str_in_iff lower_def)
  also have "\<dots> \<longleftrightarrow> (\<exists>i\<le>length s. lower (take (length marker) (drop i s)) = lower marker)"
    using assms by (simp add: lower_def take_map drop_map)
  also have "\<dots> \<longleftrightarrow> occurs_ignoring_case marker s"
    by (auto simp: occurs_ignoring_case_def list_ex_iff less_Suc_eq_le simp del: upt_Suc)
  finally show ?thesis .
qed

lemma update_marker_lower: "lower ''work update found'' = ''work update found''"
  by code_simp

lemma sent_marker_lower: "lower ''email sent'' = ''email sent''"
  by code_simp

lemma any_contains_iff:
  assumes "lower marker = marker"
  shows "any_contains marker results \<longleftrightarrow>
           list_ex (\<lambda>m. occurs_ignoring_case marker (content m)) results"
  by (simp add: any_contains_def str_in_lower_iff [OF assms])

section \<open>C7: the update check\<close>

text \<open>
  Claim C7. When the agent answers the update-check instruction, the update-check stage
  ends with \<open>update_received\<close> equal to the or of its prior value and the test ``some
  returned message contains the phrase `work update found', ignoring case''. In particular,
  when some message returned to \<^verbatim>\<open>run_workflow\<close>'s update check contains the phrase, the
  run ends normally with \<open>update_received\<close> true, \<open>reminder_sent\<close> and \<open>slack_message_sent\<close>
  still false, and no call after the time check: no reminder is dispatched.
\<close>

theorem update_check_detects_marker:
  "(fst (process_query w (update_query (user_email s)) tr) = Inr results \<longrightarrow>
      (\<exists>s'. fst (invoke (email_update_subgraph (WorkUpdateWorkflow_init w a)) s tr) = Inr s'
         \<and> update_received s' =
             (update_received s
              \<or> list_ex (\<lambda>m. occurs_ignoring_case ''work update found'' (content m)) results)))
   \<and> (fst (process_query w (update_query hard_coded_email) [Now]) = Inr results0
       \<and> list_ex (\<lambda>m. occurs_ignoring_case ''work update found'' (content m)) results0 \<longrightarrow>
      (\<exists>final hist. run_workflow w (WorkUpdateWorkflow_init w a) =
           (Inr final, hist, [Now, AgentStream (update_query hard_coded_email), Now])
         \<and> update_received final \<and> \<not> reminder_sent final \<and> \<not> slack_message_sent final))"
  by (simp add: invoke_email_update run_workflow_closed Let_def run_state_def
      any_contains_iff [OF update_marker_lower])

theorem update_check_detects_marker_witness:
  "fst (process_query (fixed_env (clock_at 20 30) ''Work update found.'' (Inr ()))
          (update_query hard_coded_email) [Now])
     = Inr [\<lparr>content = update_query hard_coded_email\<rparr>, \<lparr>content = ''Work update found.''\<rparr>]
   \<and> list_ex (\<lambda>m. occurs_ignoring_case ''work update found'' (content m))
        [\<lparr>content = update_query hard_coded_email\<rparr>, \<lparr>content = ''Work update found.''\<rparr>]
   \<and> (\<exists>final hist. main (fixed_env (clock_at 20 30) ''Work update found.'' (Inr ())) =
           (Inr final, hist, [Now, AgentStream (update_query hard_coded_email), Now])
         \<and> update_received final \<and> \<not> reminder_sent final \<and> \<not> slack_message_sent final)"
proof -
  let ?w = "fixed_env (clock_at 20 30) ''Work update found.'' (Inr ())"
  let ?res = "[\<lparr>content = update_query hard_coded_email\<rparr>, \<lparr>content = ''Work update found.''\<rparr>]"
  have h1: "fst (process_query ?w (update_query hard_coded_email) [Now]) = Inr ?res"
    by (rule process_query_fixed_env)
  have "any_contains ''work update found'' ?res"
    using found_answer by (simp add: any_contains_def)
  then have h2: "list_ex (\<lambda>m. occurs_ignoring_case ''work update found'' (content m)) ?res"
    by (simp only: any_contains_iff [OF update_marker_lower])
  have "fst (process_query ?w (update_query hard_coded_email) [Now]) = Inr ?res
        \<and> list_ex (\<lambda>m. occurs_ignoring_case ''work update found'' (content m)) ?res \<longrightarrow>
      (\<exists>final hist. run_workflow ?w (WorkUpdateWorkflow_init ?w ''jhananinallasamy@gmail.com'') =
           (Inr final, hist, [Now, AgentStream (update_query hard_coded_email), Now])
         \<and> update_received final \<and> \<not> reminder_sent final \<and> \<not> slack_message_sent final)"
    by (rule update_check_detects_marker [THEN conjunct2])
  with h1 h2 have c: "\<exists>final hist. run_workflow ?w (WorkUpdateWorkflow_init ?w ''jhananinallasamy@gmail.com'') =
           (Inr final, hist, [Now, AgentStream (update_query hard_coded_email), Now])
         \<and> update_received final \<and> \<not> reminder_sent final \<and> \<not> slack_message_sent final"
    by blast
  show ?thesis unfolding main_def by (intro conjI) (rule h1, rule h2, rule c)
qed

section \<open>What \<^verbatim>\<open>process_query\<close> returns\<close>

lemma extract_loop_eq:
  "extract_loop events acc =
     (if list_all (\<lambda>ev. messages ev \<noteq> []) events
      then Inr (acc @ map (\<lambda>ev. last (messages ev)) events) else Inl IndexError)"
  by (induction events arbitrary: acc) (auto simp: last_message_def split: list.splits)

section \<open>C9: \<^verbatim>\<open>process_query\<close> keeps the last message of each event\<close>

text \<open>
  Claim C9, as the code has it. When the agent streams its events without an exception and
  every event holds at least one message, \<^verbatim>\<open>process_query\<close> returns one message per
  event, in the order of the events: the last message of that event's list. (An event with
  an empty list raises IndexError, and an exception of the agent propagates.)
\<close>

theorem process_query_returns_last_of_each_event:
  assumes "agent_stream w tr query = Inr events"
    and "list_all (\<lambda>ev. messages ev \<noteq> []) events"
  shows "process_query w query tr =
           (Inr (map (\<lambda>ev. last (messages ev)) events), tr @ [AgentStream query])"
  using assms by (simp add: process_query_def extract_loop_eq)

theorem process_query_returns_last_of_each_event_witness:
  "agent_stream parallel_tools_env [] ''q'' = Inr
        [\<lparr>messages = [\<lparr>content = ''q''\<rparr>]\<rparr>,
         \<lparr>messages = [\<lparr>content = ''q''\<rparr>, \<lparr>content = ''calling two tools''\<rparr>]\<rparr>,
         \<lparr>messages = [\<lparr>content = ''q''\<rparr>, \<lparr>content = ''calling two tools''\<rparr>,
                      \<lparr>content = ''inbox: nothing''\<rparr>, \<lparr>content = ''sent folder: nothing''\<rparr>]\<rparr>,
         \<lparr>messages = [\<lparr>content = ''q''\<rparr>, \<lparr>content = ''calling two tools''\<rparr>,
                      \<lparr>content = ''inbox: nothing''\<rparr>, \<lparr>content = ''sent folder: nothing''\<rparr>,
                      \<lparr>content = ''No update today.''\<rparr>]\<rparr>]
   \<and> process_query parallel_tools_env ''q'' [] =
       (Inr [\<lparr>content = ''q''\<rparr>, \<lparr>content = ''calling two tools''\<rparr>,
             \<lparr>content = ''sent folder: nothing''\<rparr>, \<lparr>content = ''No update today.''\<rparr>],
        [AgentStream ''q''])"
proof -
  let ?events = "[\<lparr>messages = [\<lparr>content = ''q''\<rparr>]\<rparr>,
         \<lparr>messages = [\<lparr>content = ''q''\<rparr>, \<lparr>content = ''calling two tools''\<rparr>]\<rparr>,
         \<lparr>messages = [\<lparr>content = ''q''\<rparr>, \<lparr>content = ''calling two tools''\<rparr>,
                      \<lparr>content = ''inbox: nothing''\<rparr>, \<lparr>content = ''sent folder: nothing''\<rparr>]\<rparr>,
         \<lparr>messages = [\<lparr>content = ''q''\<rparr>, \<lparr>content = ''calling two tools''\<rparr>,
                      \<lparr>content = ''inbox: nothing''\<rparr>, \<lparr>content = ''sent folder: nothing''\<rparr>,
                      \<lparr>content = ''No update today.''\<rparr>]\<rparr>]"
  have h1: "agent_stream parallel_tools_env [] ''q'' = Inr ?events"
    by (simp add: parallel_tools_env_def)
  have h2: "list_all (\<lambda>ev. messages ev \<noteq> []) ?events" by simp
  from process_query_returns_last_of_each_event [OF h1 h2] h1 show ?thesis by simp
qed

text \<open>
  Claim C9 as stated fails: the returned list is not the list of all messages the agent
  produced: when one step of
  the agent adds two messages, the first of them is the last message of no event and is
  never returned.
\<close>

theorem process_query_drops_a_message:
  "fst (process_query parallel_tools_env ''q'' []) =
       Inr [\<lparr>content = ''q''\<rparr>, \<lparr>content = ''calling two tools''\<rparr>,
            \<lparr>content = ''sent folder: nothing''\<rparr>, \<lparr>content = ''No update today.''\<rparr>]
   \<and> agent_stream parallel_tools_env [] ''q'' = Inr
        [\<lparr>messages = [\<lparr>content = ''q''\<rparr>]\<rparr>,
         \<lparr>messages = [\<lparr>content = ''q''\<rparr>, \<lparr>content = ''calling two tools''\<rparr>]\<rparr>,
         \<lparr>messages = [\<lparr>content = ''q''\<rparr>, \<lparr>content = ''calling two tools''\<rparr>,
                      \<lparr>content = ''inbox: nothing''\<rparr>, \<lparr>content = ''sent folder: nothing''\<rparr>]\<rparr>,
         \<lparr>messages = [\<lparr>content = ''q''\<rparr>, \<lparr>content = ''calling two tools''\<rparr>,
                      \<lparr>content = ''inbox: nothing''\<rparr>, \<lparr>content = ''sent folder: nothing''\<rparr>,
                      \<lparr>content = ''No update today.''\<rparr>]\<rparr>]
   \<and> \<lparr>content = ''inbox: nothing''\<rparr> \<notin> set
       [\<lparr>content = ''q''\<rparr>, \<lparr>content = ''calling two tools''\<rparr>,
            \<lparr>content = ''sent folder: nothing''\<rparr>, \<lparr>content = ''No update today.''\<rparr>]"
  by (simp add: process_query_def parallel_tools_env_def last_message_def)

section \<open>C5: what the send operation does with a failure\<close>

lemma main_fixed_env_early_raise:
  assumes "\<not> str_in ''work update found'' (lower answer)"
    and "e \<noteq> SlackApiError"
  shows "main (fixed_env t answer (Inl e)) =
     (Inl e,
      [run_state t False False False, run_state t False False False, run_state t False False False],
      [Now, AgentStream (update_query hard_coded_email), Now,
       ChatPostMessage ''enter-channel-id'' (reminder_text hard_coded_email)])"
  using assms
  by (cases e) (auto simp: main_def run_workflow_closed Let_def process_query_fixed_env now_fixed_env
      any_contains_def update_query_no_marker send_slack_message_fixed_env)

text \<open>
  Claim C5 as stated fails: the send operation can raise. \<^verbatim>\<open>except SlackApiError\<close>
  catches one class, and any other exception of the chat client leaves
  \<^verbatim>\<open>send_slack_message\<close> and ends the run.
\<close>

theorem send_raises_transport_error:
  "fst (send_slack_message (fixed_env (clock_at 20 30) ''Nothing yet.'' (Inl TransportError))
          (SlackAgent_init ''enter-your-slack-token'' ''enter-channel-id'')
          (reminder_text hard_coded_email) []) = Inl TransportError
   \<and> fst (main (fixed_env (clock_at 20 30) ''Nothing yet.'' (Inl TransportError)))
       = Inl TransportError"
  by (simp add: send_slack_message_fixed_env main_fixed_env_early_raise [OF nothing_answer])

text \<open>
  Claim C5, as the code has it. The send operation returns true when the post is accepted
  and false, without raising, when the post raises SlackApiError; every other exception
  propagates. A false result does not abort the workflow: when no update was found and
  the time check shows a time before 21:00, a post that raises SlackApiError lets the run
  end normally with \<open>slack_message_sent\<close> and \<open>reminder_sent\<close> both false.
\<close>

theorem send_swallows_SlackApiError:
  "(chat_postMessage w tr (channel_id ag) msg = Inr () \<longrightarrow>
      fst (send_slack_message w ag msg tr) = Inr True)
   \<and> (chat_postMessage w tr (channel_id ag) msg = Inl SlackApiError \<longrightarrow>
      fst (send_slack_message w ag msg tr) = Inr False)
   \<and> (chat_postMessage w tr (channel_id ag) msg = Inl e \<and> e \<noteq> SlackApiError \<longrightarrow>
      fst (send_slack_message w ag msg tr) = Inl e)
   \<and> (fst (process_query w (update_query hard_coded_email) [Now]) = Inr results
       \<and> \<not> any_contains ''work update found'' results
       \<and> time_lt (time_part (now w [Now, AgentStream (update_query hard_coded_email)])) (mk_time 21 0)
       \<and> chat_postMessage w [Now, AgentStream (update_query hard_coded_email), Now]
            ''enter-channel-id'' (reminder_text hard_coded_email) = Inl SlackApiError \<longrightarrow>
      (\<exists>final hist tr'. run_workflow w (WorkUpdateWorkflow_init w a) = (Inr final, hist, tr')
         \<and> \<not> slack_message_sent final \<and> \<not> reminder_sent final))"
proof -
  have ag: "self_slack_agent (WorkUpdateWorkflow_init w a)
              = SlackAgent_init ''enter-your-slack-token'' ''enter-channel-id''"
    by (simp add: WorkUpdateWorkflow_init_def Let_def)
  have 1: "chat_postMessage w tr (channel_id ag) msg = Inr () \<longrightarrow>
      fst (send_slack_message w ag msg tr) = Inr True"
    by (simp add: send_slack_message_def)
  have 2: "chat_postMessage w tr (channel_id ag) msg = Inl SlackApiError \<longrightarrow>
      fst (send_slack_message w ag msg tr) = Inr False"
    by (simp add: send_slack_message_def)
  have 3: "chat_postMessage w tr (channel_id ag) msg = Inl e \<and> e \<noteq> SlackApiError \<longrightarrow>
      fst (send_slack_message w ag msg tr) = Inl e"
    by (cases e) (simp_all add: send_slack_message_def)
  have 4: "fst (process_query w (update_query hard_coded_email) [Now]) = Inr results
       \<and> \<not> any_contains ''work update found'' results
       \<and> time_lt (time_part (now w [Now, AgentStream (update_query hard_coded_email)])) (mk_time 21 0)
       \<and> chat_postMessage w [Now, AgentStream (update_query hard_coded_email), Now]
            ''enter-channel-id'' (reminder_text hard_coded_email) = Inl SlackApiError \<longrightarrow>
      (\<exists>final hist tr'. run_workflow w (WorkUpdateWorkflow_init w a) = (Inr final, hist, tr')
         \<and> \<not> slack_message_sent final \<and> \<not> reminder_sent final)"
    by (simp add: run_workflow_closed Let_def ag send_slack_message_def SlackAgent_init_def
        run_state_def)
  from 1 2 3 4 show ?thesis by (intro conjI)
qed

theorem send_swallows_SlackApiError_witness:
  "chat_postMessage (fixed_env (clock_at 20 30) ''Nothing yet.'' (Inl SlackApiError))
       [Now, AgentStream (update_query hard_coded_email), Now]
       ''enter-channel-id'' (reminder_text hard_coded_email) = Inl SlackApiError
   \<and> fst (process_query (fixed_env (clock_at 20 30) ''Nothing yet.'' (Inl SlackApiError))
            (update_query hard_coded_email) [Now])
       = Inr [\<lparr>content = update_query hard_coded_email\<rparr>, \<lparr>content = ''Nothing yet.''\<rparr>]
   \<and> \<not> any_contains ''work update found''
          [\<lparr>content = update_query hard_coded_email\<rparr>, \<lparr>content = ''Nothing yet.''\<rparr>]
   \<and> time_lt (time_part (now (fixed_env (clock_at 20 30) ''Nothing yet.'' (Inl SlackApiError))
          [Now, AgentStream (update_query hard_coded_email)])) (mk_time 21 0)
   \<and> (\<exists>final hist tr'. main (fixed_env (clock_at 20 30) ''Nothing yet.'' (Inl SlackApiError))
          = (Inr final, hist, tr')
         \<and> \<not> slack_message_sent final \<and> \<not> reminder_sent final)"
proof -
  let ?w = "fixed_env (clock_at 20 30) ''Nothing yet.'' (Inl SlackApiError)"
  let ?res = "[\<lparr>content = update_query hard_coded_email\<rparr>, \<lparr>content = ''Nothing yet.''\<rparr>]"
  have h1: "fst (process_query ?w (update_query hard_coded_email) [Now]) = Inr ?res"
    by (rule process_query_fixed_env)
  have h2: "\<not> any_contains ''work update found'' ?res"
    using nothing_answer update_query_no_marker by (simp add: any_contains_def)
  have h3: "time_lt (time_part (now ?w [Now, AgentStream (update_query hard_coded_email)])) (mk_time 21 0)"
    using clock_early by (simp add: now_fixed_env)
  have h4: "chat_postMessage ?w [Now, AgentStream (update_query hard_coded_email), Now]
       ''enter-channel-id'' (reminder_text hard_coded_email) = Inl SlackApiError"
    by (simp add: fixed_env_def)
  have "fst (process_query ?w (update_query hard_coded_email) [Now]) = Inr ?res
       \<and> \<not> any_contains ''work update found'' ?res
       \<and> time_lt (time_part (now ?w [Now, AgentStream (update_query hard_coded_email)])) (mk_time 21 0)
       \<and> chat_postMessage ?w [Now, AgentStream (update_query hard_coded_email), Now]
            ''enter-channel-id'' (reminder_text hard_coded_email) = Inl SlackApiError \<longrightarrow>
      (\<exists>final hist tr'. run_workflow ?w (WorkUpdateWorkflow_init ?w ''jhananinallasamy@gmail.com'')
           = (Inr final, hist, tr')
         \<and> \<not> slack_message_sent final \<and> \<not> reminder_sent final)"
    by (rule send_swallows_SlackApiError [THEN conjunct2, THEN conjunct2, THEN conjunct2])
  with h1 h2 h3 h4 have c: "\<exists>final hist tr'.
      run_workflow ?w (WorkUpdateWorkflow_init ?w ''jhananinallasamy@gmail.com'')
           = (Inr final, hist, tr')
         \<and> \<not> slack_message_sent final \<and> \<not> reminder_sent final"
    by blast
  show ?thesis unfolding main_def by (intro conjI) (rule h4, rule h1, rule h2, rule h3, rule c)
qed

section \<open>C6: when \<open>current_time\<close> is written\<close>

lemma ticking_run:
  "main ticking_env =
     (Inr (run_state (clock_at 20 2) True False False),
      [run_state (clock_at 20 0) False False False, run_state (clock_at 20 0) True False False,
       run_state (clock_at 20 2) True False False],
      [Now, AgentStream (update_query hard_coded_email), Now])"
proof -
  have pq: "fst (process_query ticking_env (update_query hard_coded_email) [Now])
        = Inr [\<lparr>content = update_query hard_coded_email\<rparr>, \<lparr>content = ''Work update found.''\<rparr>]"
    by (simp add: process_query_def ticking_env_def reply_def last_message_def)
  have nw: "now ticking_env tr = clock_at 20 (length tr)" for tr
    by (simp add: ticking_env_def)
  show ?thesis
    using found_answer
    by (simp add: main_def run_workflow_closed Let_def pq nw any_contains_def numeral_2_eq_2)
qed

text \<open>
  Claim C6 as stated fails: \<open>current_time\<close> is not written by the time check alone. \<^verbatim>\<open>run_workflow\<close> reads the
  clock for the initial state, and each stage returns \<^verbatim>\<open>{**state, ...}\<close>, which holds the
  key again. With a clock that advances, the first two states carry the reading of the
  initialisation and the third the later reading of the time check.
\<close>

theorem current_time_is_set_twice:
  "map current_time (fst (snd (main ticking_env))) = [clock_at 20 0, clock_at 20 0, clock_at 20 2]
   \<and> snd (snd (main ticking_env)) = [Now, AgentStream (update_query hard_coded_email), Now]
   \<and> current_time (initial_state ticking_env
        (WorkUpdateWorkflow_init ticking_env ''jhananinallasamy@gmail.com'') []) = clock_at 20 0
   \<and> upd_current_time (dict_of (run_state (clock_at 20 0) True False False)) = Some (clock_at 20 0)
   \<and> clock_at 20 0 \<noteq> clock_at 20 2"
proof -
  have 1: "map current_time (fst (snd (main ticking_env)))
             = [clock_at 20 0, clock_at 20 0, clock_at 20 2]"
    by (simp add: ticking_run run_state_def)
  have 2: "snd (snd (main ticking_env)) = [Now, AgentStream (update_query hard_coded_email), Now]"
    by (simp add: ticking_run)
  have 3: "current_time (initial_state ticking_env
        (WorkUpdateWorkflow_init ticking_env ''jhananinallasamy@gmail.com'') []) = clock_at 20 0"
    by (simp add: initial_state_def ticking_env_def)
  have 4: "upd_current_time (dict_of (run_state (clock_at 20 0) True False False))
             = Some (clock_at 20 0)"
    by (simp add: dict_of_def run_state_def)
  have 5: "clock_at 20 0 \<noteq> clock_at 20 2"
    by (simp add: clock_at_def mk_time_def)
  from 1 2 3 4 5 show ?thesis by (intro conjI)
qed

text \<open>
  Claim C6, as the code has it. In every run the initial state holds a clock reading taken
  by \<^verbatim>\<open>run_workflow\<close>; the update check leaves it unchanged; the time check replaces it
  by a fresh reading, which is the value of the third state (the one the branch decisions
  read) and of every later state. The clock is read once when the run stops in the update
  check and twice otherwise.
\<close>

theorem current_time_initialised_then_overwritten:
  "fst (snd (run_workflow w (WorkUpdateWorkflow_init w a))) \<noteq> []
   \<and> map current_time (fst (snd (run_workflow w (WorkUpdateWorkflow_init w a)))) =
       take (length (fst (snd (run_workflow w (WorkUpdateWorkflow_init w a)))))
         [now w [], now w [],
          now w [Now, AgentStream (update_query hard_coded_email)],
          now w [Now, AgentStream (update_query hard_coded_email)]]
   \<and> count_list (snd (snd (run_workflow w (WorkUpdateWorkflow_init w a)))) Now
       = (if length (fst (snd (run_workflow w (WorkUpdateWorkflow_init w a)))) < 3 then 1 else 2)"
  by (simp add: run_workflow_closed Let_def run_state_def split: sum.splits)

section \<open>C1 and C8: the reminder sub-workflow at 21:00 or later\<close>

text \<open>
  The reminder graph has the edge \<^verbatim>\<open>add_edge(START, "send_slack_reminder")\<close> and the
  conditional entry point. Both are followed, so at 21:00 or later the step after START
  runs \<open>send_slack_reminder\<close> and \<open>send_email_reminder\<close> together; both return all seven
  keys, and the second write to a key without a reducer raises InvalidUpdateError.
\<close>

lemma late_run_always_fails:
  assumes "fst (process_query w (update_query hard_coded_email) [Now]) = Inr results"
    and "\<not> any_contains ''work update found'' results"
    and "\<not> time_lt (time_part (now w [Now, AgentStream (update_query hard_coded_email)])) (mk_time 21 0)"
  shows "(\<exists>e. fst (run_workflow w (WorkUpdateWorkflow_init w a)) = Inl e)
         \<and> ChatPostMessage ''enter-channel-id'' (reminder_text hard_coded_email)
             \<in> set (snd (snd (run_workflow w (WorkUpdateWorkflow_init w a))))"
  using assms
  by (simp add: run_workflow_closed Let_def split: sum.splits)

text \<open>
  Claim C1 says that at 21:00 or later only the email reminder is invoked, never the chat
  service. At 21:30, with no update found, the run posts the reminder to the chat service,
  then streams the email instruction, and ends with InvalidUpdateError instead of a final
  state.
\<close>

theorem late_run_posts_to_chat_and_fails:
  "fst (main (fixed_env (clock_at 21 30) ''Nothing yet.'' (Inr ()))) = Inl InvalidUpdateError
   \<and> snd (snd (main (fixed_env (clock_at 21 30) ''Nothing yet.'' (Inr ())))) =
       [Now, AgentStream (update_query hard_coded_email), Now,
        ChatPostMessage ''enter-channel-id'' (reminder_text hard_coded_email),
        AgentStream (reminder_query hard_coded_email)]
   \<and> map update_received (fst (snd (main (fixed_env (clock_at 21 30) ''Nothing yet.'' (Inr ())))))
       = [False, False, False]
   \<and> map (\<lambda>s. hour (time_part (current_time s)))
        (fst (snd (main (fixed_env (clock_at 21 30) ''Nothing yet.'' (Inr ()))))) = [21, 21, 21]"
proof -
  have m: "main (fixed_env (clock_at 21 30) ''Nothing yet.'' (Inr ())) =
     (Inl InvalidUpdateError,
      [run_state (clock_at 21 30) False False False, run_state (clock_at 21 30) False False False,
       run_state (clock_at 21 30) False False False],
      [Now, AgentStream (update_query hard_coded_email), Now,
       ChatPostMessage ''enter-channel-id'' (reminder_text hard_coded_email),
       AgentStream (reminder_query hard_coded_email)])"
    by (intro main_fixed_env_late nothing_answer clock_late) simp
  have h: "hour (time_part (clock_at 21 30)) = 21"
    by (simp add: clock_at_def mk_time_def)
  show ?thesis by (simp add: m run_state_def h)
qed

text \<open>
  Claim C8 says that on the email path \<open>reminder_sent\<close> becomes true exactly when a returned
  message contains the phrase. At 21:30, with an answer ``Email sent.'', the node
  \<open>send_email_reminder\<close> returns \<open>reminder_sent\<close> true, but the step that should store it
  fails with InvalidUpdateError: no state of the run has \<open>reminder_sent\<close> true.
\<close>

theorem late_run_loses_email_result:
  "any_contains ''email sent''
       [\<lparr>content = reminder_query hard_coded_email\<rparr>, \<lparr>content = ''Email sent.''\<rparr>]
   \<and> fst (send_email_reminder (fixed_env (clock_at 21 30) ''Email sent.'' (Inr ()))
            (run_state (clock_at 21 30) False False False)
            [Now, AgentStream (update_query hard_coded_email), Now,
             ChatPostMessage ''enter-channel-id'' (reminder_text hard_coded_email)])
       = Inr (dict_of (run_state (clock_at 21 30) False True False))
   \<and> fst (main (fixed_env (clock_at 21 30) ''Email sent.'' (Inr ()))) = Inl InvalidUpdateError
   \<and> map reminder_sent (fst (snd (main (fixed_env (clock_at 21 30) ''Email sent.'' (Inr ())))))
       = [False, False, False]"
proof -
  let ?w = "fixed_env (clock_at 21 30) ''Email sent.'' (Inr ())"
  let ?tr = "[Now, AgentStream (update_query hard_coded_email), Now,
             ChatPostMessage ''enter-channel-id'' (reminder_text hard_coded_email)]"
  have a: "any_contains ''email sent''
       [\<lparr>content = reminder_query hard_coded_email\<rparr>, \<lparr>content = ''Email sent.''\<rparr>]"
    using sent_answer by (simp add: any_contains_def)
  have "process_query ?w (reminder_query hard_coded_email) ?tr =
      (Inr [\<lparr>content = reminder_query hard_coded_email\<rparr>, \<lparr>content = ''Email sent.''\<rparr>],
       ?tr @ [AgentStream (reminder_query hard_coded_email)])"
    using process_query_eq [of ?w "reminder_query hard_coded_email" ?tr]
    by (simp add: process_query_fixed_env)
  with a have b: "fst (send_email_reminder ?w (run_state (clock_at 21 30) False False False) ?tr)
       = Inr (dict_of (run_state (clock_at 21 30) False True False))"
    by (simp add: send_email_reminder_def run_state_def)
  have c: "main ?w = (Inl InvalidUpdateError,
      [run_state (clock_at 21 30) False False False, run_state (clock_at 21 30) False False False,
       run_state (clock_at 21 30) False False False],
      [Now, AgentStream (update_query hard_coded_email), Now,
       ChatPostMessage ''enter-channel-id'' (reminder_text hard_coded_email),
       AgentStream (reminder_query hard_coded_email)])"
    using sent_answer by (intro main_fixed_env_late clock_late) simp_all
  from a b c show ?thesis by (simp add: run_state_def)
qed

end
